theory Spec2Isabelle
  imports Complex_Main "HOL-Library.Word"
begin

unbundle bit_operations_syntax

type_synonym byte = "8 word"
type_synonym bytes = "byte list"

section \<open>The benchmark harness: \<^verbatim>\<open>benchmark\<close> of rijndael_bench.c\<close>

text \<open>
  \<^verbatim>\<open>benchmark\<close> times five loops for each of the nine (blockbits, keybits) pairs and
  prints one line per loop. What it prints depends on the processor clock only, so the
  model keeps the clock, the two locals \<^verbatim>\<open>start\<close> and \<^verbatim>\<open>dur\<close>, and the lines printed;
  the contents of the buffers PT, CT, IV and key do not reach the output and are left out.

  The clock is counted in ticks of \<^verbatim>\<open>clock()\<close>. How long each piece of work takes is a
  parameter: \<open>loop_ticks blockbits keybits w\<close> ticks for all \<^verbatim>\<open>loopcount\<close> iterations of
  the loop that does \<open>w\<close>, and \<open>printf_ticks\<close> for one \<^verbatim>\<open>printf\<close>. The C \<^verbatim>\<open>double\<close>s are
  modelled as reals (no rounding), and the formatting of a number by \<^verbatim>\<open>%7.0f\<close> or
  \<^verbatim>\<open>%.2f\<close> is not modelled: a printed line holds the numbers themselves.
\<close>

datatype work = SetKey | EcbEncrypt | EcbDecrypt | CbcEncrypt | CbcDecrypt

record timing =
  loop_ticks :: "nat \<Rightarrow> nat \<Rightarrow> work \<Rightarrow> nat"
  printf_ticks :: nat
  CLOCKS_PER_SEC :: nat

text \<open>
  A line of output: the heading of a pair, the \<^verbatim>\<open>Set Key\<close> line (ns/op only), or the
  line of one of the four cipher loops (ns/op and MB/s). MB/s divides by \<^verbatim>\<open>dur\<close>; C
  prints \<^verbatim>\<open>inf\<close> when \<^verbatim>\<open>dur\<close> is zero, which is \<open>None\<close> here.
\<close>

datatype line =
  Heading nat nat
  | SetKeyLine real
  | FigureLine work real "real option"

record bench =
  clock :: nat
  start :: real
  dur :: real
  stdout :: "line list"

definition loopcount :: nat where
  "loopcount = 5000000"

definition seconds :: "timing \<Rightarrow> bench \<Rightarrow> real" where
  "seconds tm b = real (clock b) / real (CLOCKS_PER_SEC tm)"

definition run_loop :: "timing \<Rightarrow> nat \<Rightarrow> nat \<Rightarrow> work \<Rightarrow> bench \<Rightarrow> bench" where
  "run_loop tm blockbits keybits w b = b\<lparr>clock := clock b + loop_ticks tm blockbits keybits w\<rparr>"

definition printf :: "timing \<Rightarrow> line \<Rightarrow> bench \<Rightarrow> bench" where
  "printf tm l b = b\<lparr>clock := clock b + printf_ticks tm, stdout := stdout b @ [l]\<rparr>"

definition set_start :: "timing \<Rightarrow> bench \<Rightarrow> bench" where
  "set_start tm b = b\<lparr>start := seconds tm b\<rparr>"

definition set_dur :: "timing \<Rightarrow> bench \<Rightarrow> bench" where
  "set_dur tm b = b\<lparr>dur := seconds tm b - start b\<rparr>"

definition ns_per_op :: "real \<Rightarrow> real" where
  "ns_per_op d = d * 1000000000 / real loopcount"

definition mb_per_s :: "nat \<Rightarrow> real \<Rightarrow> real option" where
  "mb_per_s sz d = (if d = 0 then None else Some (real (sz * loopcount) / 1000000 / d))"

definition print_figure :: "timing \<Rightarrow> work \<Rightarrow> nat \<Rightarrow> bench \<Rightarrow> bench" where
  "print_figure tm w sz b = printf tm (FigureLine w (ns_per_op (dur b)) (mb_per_s sz (dur b))) b"

text \<open>
  The body of the inner loop, lines 190 to 228, as the list of its statements in order
  (a timed loop is one statement). After the ECB decrypt line is printed, \<^verbatim>\<open>dur\<close> is
  assigned again from the same \<^verbatim>\<open>start\<close> (line 214), the CBC encrypt loop runs, and the
  CBC encrypt line is printed from that \<^verbatim>\<open>dur\<close>.
\<close>

definition benchmark_pair :: "timing \<Rightarrow> nat \<Rightarrow> nat \<Rightarrow> bench \<Rightarrow> bench" where
  "benchmark_pair tm blockbits keybits =
     fold (\<lambda>statement. statement)
       [printf tm (Heading blockbits keybits),
        set_start tm,
        run_loop tm blockbits keybits SetKey,
        set_dur tm,
        (\<lambda>b. printf tm (SetKeyLine (ns_per_op (dur b))) b),
        set_start tm,
        run_loop tm blockbits keybits EcbEncrypt,
        set_dur tm,
        print_figure tm EcbEncrypt (blockbits div 8),
        set_start tm,
        run_loop tm blockbits keybits EcbDecrypt,
        set_dur tm,
        print_figure tm EcbDecrypt (blockbits div 8),
        set_dur tm,
        run_loop tm blockbits keybits CbcEncrypt,
        print_figure tm CbcEncrypt (blockbits div 8),
        set_start tm,
        run_loop tm blockbits keybits CbcDecrypt,
        set_dur tm,
        print_figure tm CbcDecrypt (blockbits div 8)]"

text \<open>The values \<^verbatim>\<open>for (x = 128; x <= 256; x += 64)\<close> runs through.\<close>

definition bit_sizes :: "nat list" where
  "bit_sizes = [128, 192, 256]"

definition size_pairs :: "(nat \<times> nat) list" where
  "size_pairs = concat (map (\<lambda>blockbits. map (\<lambda>keybits. (blockbits, keybits)) bit_sizes) bit_sizes)"

definition benchmark :: "timing \<Rightarrow> bench \<Rightarrow> bench" where
  "benchmark tm b = fold (\<lambda>(blockbits, keybits). benchmark_pair tm blockbits keybits) size_pairs b"

text \<open>The CBC encrypt lines of an output, and a timing with other costs for that loop.\<close>

fun cbc_encrypt_figures :: "line list \<Rightarrow> (real \<times> real option) list" where
  "cbc_encrypt_figures [] = []"
| "cbc_encrypt_figures (FigureLine CbcEncrypt ns mb # ls) = (ns, mb) # cbc_encrypt_figures ls"
| "cbc_encrypt_figures (l # ls) = cbc_encrypt_figures ls"

definition with_cbc_encrypt_ticks :: "(nat \<Rightarrow> nat \<Rightarrow> nat) \<Rightarrow> timing \<Rightarrow> timing" where
  "with_cbc_encrypt_ticks c tm =
     tm\<lparr>loop_ticks := (\<lambda>blockbits keybits w.
           if w = CbcEncrypt then c blockbits keybits else loop_ticks tm blockbits keybits w)\<rparr>"

definition ecb_decrypt_interval :: "timing \<Rightarrow> nat \<Rightarrow> nat \<Rightarrow> real" where
  "ecb_decrypt_interval tm blockbits keybits =
     real (loop_ticks tm blockbits keybits EcbDecrypt + printf_ticks tm) / real (CLOCKS_PER_SEC tm)"

lemma run_loop_fields:
  "clock (run_loop tm blockbits keybits w b) = clock b + loop_ticks tm blockbits keybits w"
  "start (run_loop tm blockbits keybits w b) = start b"
  "dur (run_loop tm blockbits keybits w b) = dur b"
  "stdout (run_loop tm blockbits keybits w b) = stdout b"
  by (simp_all add: run_loop_def)

lemma printf_fields:
  "clock (printf tm l b) = clock b + printf_ticks tm"
  "start (printf tm l b) = start b"
  "dur (printf tm l b) = dur b"
  "stdout (printf tm l b) = stdout b @ [l]"
  by (simp_all add: printf_def)

lemma set_start_fields:
  "clock (set_start tm b) = clock b"
  "start (set_start tm b) = real (clock b) / real (CLOCKS_PER_SEC tm)"
  "dur (set_start tm b) = dur b"
  "stdout (set_start tm b) = stdout b"
  by (simp_all add: set_start_def seconds_def)

lemma set_dur_fields:
  "clock (set_dur tm b) = clock b"
  "start (set_dur tm b) = start b"
  "dur (set_dur tm b) = real (clock b) / real (CLOCKS_PER_SEC tm) - start b"
  "stdout (set_dur tm b) = stdout b"
  by (simp_all add: set_dur_def seconds_def)

lemma print_figure_fields:
  "clock (print_figure tm w sz b) = clock b + printf_ticks tm"
  "start (print_figure tm w sz b) = start b"
  "dur (print_figure tm w sz b) = dur b"
  "stdout (print_figure tm w sz b) = stdout b @ [FigureLine w (ns_per_op (dur b)) (mb_per_s sz (dur b))]"
  by (simp_all add: print_figure_def printf_fields)

lemmas bench_fields =
  run_loop_fields printf_fields set_start_fields set_dur_fields print_figure_fields

lemma benchmark_pair_stdout:
  "stdout (benchmark_pair tm blockbits keybits b) = stdout b @
     [Heading blockbits keybits,
      SetKeyLine (ns_per_op (real (loop_ticks tm blockbits keybits SetKey) / real (CLOCKS_PER_SEC tm))),
      FigureLine EcbEncrypt
        (ns_per_op (real (loop_ticks tm blockbits keybits EcbEncrypt) / real (CLOCKS_PER_SEC tm)))
        (mb_per_s (blockbits div 8) (real (loop_ticks tm blockbits keybits EcbEncrypt) / real (CLOCKS_PER_SEC tm))),
      FigureLine EcbDecrypt
        (ns_per_op (real (loop_ticks tm blockbits keybits EcbDecrypt) / real (CLOCKS_PER_SEC tm)))
        (mb_per_s (blockbits div 8) (real (loop_ticks tm blockbits keybits EcbDecrypt) / real (CLOCKS_PER_SEC tm))),
      FigureLine CbcEncrypt
        (ns_per_op (ecb_decrypt_interval tm blockbits keybits))
        (mb_per_s (blockbits div 8) (ecb_decrypt_interval tm blockbits keybits)),
      FigureLine CbcDecrypt
        (ns_per_op (real (loop_ticks tm blockbits keybits CbcDecrypt) / real (CLOCKS_PER_SEC tm)))
        (mb_per_s (blockbits div 8) (real (loop_ticks tm blockbits keybits CbcDecrypt) / real (CLOCKS_PER_SEC tm)))]"
  by (simp add: benchmark_pair_def ecb_decrypt_interval_def bench_fields add_divide_distrib
      add.commute)

lemma cbc_encrypt_figures_append:
  "cbc_encrypt_figures (xs @ ys) = cbc_encrypt_figures xs @ cbc_encrypt_figures ys"
  by (induction xs rule: cbc_encrypt_figures.induct) simp_all

lemma benchmark_pair_figures:
  "cbc_encrypt_figures (stdout (benchmark_pair tm blockbits keybits b)) =
     cbc_encrypt_figures (stdout b) @
       [(ns_per_op (ecb_decrypt_interval tm blockbits keybits),
         mb_per_s (blockbits div 8) (ecb_decrypt_interval tm blockbits keybits))]"
  by (simp add: benchmark_pair_stdout cbc_encrypt_figures_append)

lemma fold_benchmark_pair_figures:
  "cbc_encrypt_figures (stdout (fold (\<lambda>(blockbits, keybits). benchmark_pair tm blockbits keybits) ps b)) =
     cbc_encrypt_figures (stdout b) @
       map (\<lambda>(blockbits, keybits).
              (ns_per_op (ecb_decrypt_interval tm blockbits keybits),
               mb_per_s (blockbits div 8) (ecb_decrypt_interval tm blockbits keybits))) ps"
  by (induction ps arbitrary: b) (auto simp: benchmark_pair_figures)

lemma ecb_decrypt_interval_with_cbc:
  "ecb_decrypt_interval (with_cbc_encrypt_ticks c tm) blockbits keybits =
     ecb_decrypt_interval tm blockbits keybits"
  by (simp add: ecb_decrypt_interval_def with_cbc_encrypt_ticks_def)

text \<open>
  C9. The CBC Encrypt figures that \<^verbatim>\<open>benchmark\<close> prints are, for each pair in turn, the
  ns/op and MB/s of the interval that starts at the \<^verbatim>\<open>start\<close> taken before the ECB decrypt
  loop and ends at line 214, before the CBC encrypt loop: the time of the ECB decrypt
  loop and of one \<^verbatim>\<open>printf\<close>. They are the same whatever the CBC encrypt loops cost, so
  they do not measure \<^verbatim>\<open>rijn_cbc_encrypt\<close>.
\<close>

theorem benchmark_cbc_encrypt_figure:
  "cbc_encrypt_figures (stdout (benchmark tm b)) =
     cbc_encrypt_figures (stdout b) @
       map (\<lambda>(blockbits, keybits).
              (ns_per_op (ecb_decrypt_interval tm blockbits keybits),
               mb_per_s (blockbits div 8) (ecb_decrypt_interval tm blockbits keybits))) size_pairs
   \<and> cbc_encrypt_figures (stdout (benchmark (with_cbc_encrypt_ticks c tm) b)) =
     cbc_encrypt_figures (stdout (benchmark tm b))"
  by (simp add: benchmark_def fold_benchmark_pair_figures ecb_decrypt_interval_with_cbc)

section \<open>The brief test: \<^verbatim>\<open>brief_test\<close> of rijndael_test.c\<close>

text \<open>
  \<^verbatim>\<open>brief_test\<close> calls \<^verbatim>\<open>rijn_set_key\<close>, \<^verbatim>\<open>rijn_cbc_encrypt\<close> and \<^verbatim>\<open>rijn_cbc_decrypt\<close> of
  rijndael.c, which is not among the source files. They are parameters of the model: each
  gets the contents of the buffers its pointers address and returns what it left in the
  buffers it may write (the context, the IV and, for the CBC functions, the destination).
  Their return values are ignored by \<^verbatim>\<open>brief_test\<close> and are left out.
\<close>

record 'c rijn =
  rijn_set_key :: "'c \<Rightarrow> bytes \<Rightarrow> nat \<Rightarrow> nat \<Rightarrow> 'c"
  rijn_cbc_encrypt :: "'c \<Rightarrow> bytes \<Rightarrow> bytes \<Rightarrow> bytes \<Rightarrow> nat \<Rightarrow> 'c \<times> bytes \<times> bytes"
  rijn_cbc_decrypt :: "'c \<Rightarrow> bytes \<Rightarrow> bytes \<Rightarrow> bytes \<Rightarrow> nat \<Rightarrow> 'c \<times> bytes \<times> bytes"

text \<open>
  The static buffers of \<^verbatim>\<open>brief_test\<close> that change. \<^verbatim>\<open>PT\<close> and \<^verbatim>\<open>key\<close> are filled once by
  \<^verbatim>\<open>rand_bytes\<close> and only read afterwards, so they are arguments; \<open>length PT\<close> stands for
  \<^verbatim>\<open>sizeof(PT)\<close>, which is also the size of \<^verbatim>\<open>CT\<close> and \<^verbatim>\<open>result\<close>.
\<close>

record 'c test_state =
  ctx :: 'c
  IV :: bytes
  IV_DEC :: bytes
  CT :: bytes
  result :: bytes

text \<open>
  A callee writes into a buffer from its start and not past its end: \<open>written old new\<close>
  is the buffer afterwards. \<open>store_at buf i chunk\<close> puts a chunk back at offset \<open>i\<close>.
\<close>

definition written :: "bytes \<Rightarrow> bytes \<Rightarrow> bytes" where
  "written old new = take (length old) new @ drop (length new) old"

definition store_at :: "bytes \<Rightarrow> nat \<Rightarrow> bytes \<Rightarrow> bytes" where
  "store_at buf i chunk = take i buf @ chunk @ drop (i + length chunk) buf"

definition chunk_at :: "bytes \<Rightarrow> nat \<Rightarrow> nat \<Rightarrow> bytes" where
  "chunk_at buf i n = take n (drop i buf)"

text \<open>
  \<^verbatim>\<open>memcmp\<close>: zero when the first \<open>n\<close> bytes agree, else the difference of the first two
  bytes that differ. Reading past the end of a buffer is undefined in C; \<^verbatim>\<open>brief_test\<close>
  compares at most 32 bytes of two buffers of the same size, and the last equation is
  never reached from it.
\<close>

fun memcmp :: "bytes \<Rightarrow> bytes \<Rightarrow> nat \<Rightarrow> int" where
  "memcmp a b 0 = 0"
| "memcmp (x # xs) (y # ys) (Suc n) = (if x = y then memcmp xs ys n else uint x - uint y)"
| "memcmp a b (Suc n) = 0"

text \<open>
  The two loops \<^verbatim>\<open>for (i = 0; i < sizeof(PT); i += chunkbytes)\<close>, lines 235 and 245,
  each with its body (one call on the chunk at offset \<open>i\<close>) as a function of its own. The
  test \<open>0 < chunkbytes\<close> is not in the C (where a zero step would loop for ever); it makes
  the function total, and \<^verbatim>\<open>chunkbytes\<close> is 32, 48 or 64 in \<^verbatim>\<open>brief_test\<close>.
\<close>

definition encrypt_chunk :: "'c rijn \<Rightarrow> bytes \<Rightarrow> nat \<Rightarrow> nat \<Rightarrow> 'c test_state \<Rightarrow> 'c test_state" where
  "encrypt_chunk api PT chunkbytes i s =
     (case rijn_cbc_encrypt api (ctx s) (IV s) (chunk_at PT i chunkbytes)
             (chunk_at (CT s) i chunkbytes) chunkbytes of
        (c, iv, dst) \<Rightarrow>
          s\<lparr>ctx := c, IV := written (IV s) iv,
            CT := store_at (CT s) i (written (chunk_at (CT s) i chunkbytes) dst)\<rparr>)"

definition decrypt_chunk :: "'c rijn \<Rightarrow> nat \<Rightarrow> nat \<Rightarrow> 'c test_state \<Rightarrow> 'c test_state" where
  "decrypt_chunk api chunkbytes i s =
     (case rijn_cbc_decrypt api (ctx s) (IV_DEC s) (chunk_at (CT s) i chunkbytes)
             (chunk_at (result s) i chunkbytes) chunkbytes of
        (c, iv, dst) \<Rightarrow>
          s\<lparr>ctx := c, IV_DEC := written (IV_DEC s) iv,
            result := store_at (result s) i (written (chunk_at (result s) i chunkbytes) dst)\<rparr>)"

lemma decrypt_chunk_CT: "CT (decrypt_chunk api chunkbytes i s) = CT s"
  by (simp add: decrypt_chunk_def split: prod.splits)

function cbc_encrypt_loop :: "'c rijn \<Rightarrow> bytes \<Rightarrow> nat \<Rightarrow> nat \<Rightarrow> 'c test_state \<Rightarrow> 'c test_state" where
  "cbc_encrypt_loop api PT chunkbytes i s =
     (if i < length PT \<and> 0 < chunkbytes
      then cbc_encrypt_loop api PT chunkbytes (i + chunkbytes) (encrypt_chunk api PT chunkbytes i s)
      else s)"
  by pat_completeness auto
termination
  by (relation "measure (\<lambda>(api, PT, chunkbytes, i, s). length PT - i)") auto

function cbc_decrypt_loop :: "'c rijn \<Rightarrow> nat \<Rightarrow> nat \<Rightarrow> 'c test_state \<Rightarrow> 'c test_state" where
  "cbc_decrypt_loop api chunkbytes i s =
     (if i < length (CT s) \<and> 0 < chunkbytes
      then cbc_decrypt_loop api chunkbytes (i + chunkbytes) (decrypt_chunk api chunkbytes i s)
      else s)"
  by pat_completeness auto
termination
  by (relation "measure (\<lambda>(api, chunkbytes, i, s). length (CT s) - i)")
    (auto simp: decrypt_chunk_CT)

declare cbc_encrypt_loop.simps [simp del] cbc_decrypt_loop.simps [simp del]

definition chunkcount :: nat where
  "chunkcount = 2"

text \<open>
  Lines 225 to 252 for one pair: the key is set, \<^verbatim>\<open>CT\<close> and \<^verbatim>\<open>result\<close> are zeroed, the
  whole of \<^verbatim>\<open>PT\<close> is encrypted chunk by chunk into \<^verbatim>\<open>CT\<close>, and \<^verbatim>\<open>CT\<close> is decrypted chunk by
  chunk into \<^verbatim>\<open>result\<close>.
\<close>

definition run_pair :: "'c rijn \<Rightarrow> bytes \<Rightarrow> bytes \<Rightarrow> nat \<times> nat \<Rightarrow> 'c test_state \<Rightarrow> 'c test_state" where
  "run_pair api PT key p s =
     (case p of (blockbits, keybits) \<Rightarrow>
        cbc_decrypt_loop api (blockbits div 8 * chunkcount) 0
          (cbc_encrypt_loop api PT (blockbits div 8 * chunkcount) 0
             (s\<lparr>ctx := rijn_set_key api (ctx s) key keybits blockbits,
                CT := replicate (length PT) 0,
                result := replicate (length PT) 0\<rparr>)))"

text \<open>
  What \<^verbatim>\<open>brief_test\<close> prints, without the numbers of the two rates (they come from the
  clock), and how it ends: it returns to \<^verbatim>\<open>main\<close>, or it calls \<^verbatim>\<open>exit(EXIT_FAILURE)\<close>.
\<close>

datatype test_line =
  Banner nat
  | PairLabel nat nat
  | EncryptRate
  | DecryptRate
  | FailedLine nat nat
  | PassedLine

datatype ending = Returned | Exit_Failure

definition rate_lines :: "bool \<Rightarrow> nat \<times> nat \<Rightarrow> test_line list" where
  "rate_lines time_brief p =
     (if time_brief then [PairLabel (fst p) (snd p), EncryptRate, DecryptRate] else [])"

fun test_pairs ::
  "'c rijn \<Rightarrow> bool \<Rightarrow> bytes \<Rightarrow> bytes \<Rightarrow> (nat \<times> nat) list \<Rightarrow> 'c test_state \<Rightarrow> test_line list
     \<Rightarrow> test_line list \<times> ending" where
  "test_pairs api time_brief PT key [] s out = (out @ [PassedLine], Returned)"
| "test_pairs api time_brief PT key (p # ps) s out =
     (let s' = run_pair api PT key p s;
          out' = out @ rate_lines time_brief p
      in if memcmp PT (result s') (fst p div 8) \<noteq> 0
         then (out' @ [FailedLine (fst p) (snd p)], Exit_Failure)
         else test_pairs api time_brief PT key ps s' out')"

text \<open>
  \<^verbatim>\<open>brief_test\<close>: \<open>PT\<close>, \<open>iv\<close> and \<open>key\<close> are what \<^verbatim>\<open>rand_bytes\<close> put into \<^verbatim>\<open>PT\<close>, \<^verbatim>\<open>IV\<close> and
  \<^verbatim>\<open>key\<close>; \<^verbatim>\<open>IV_DEC\<close> is the copy of \<^verbatim>\<open>IV\<close> made at line 213; \<open>c0\<close> is the static context
  before the first call.
\<close>

definition initial_state :: "'c \<Rightarrow> bytes \<Rightarrow> bytes \<Rightarrow> 'c test_state" where
  "initial_state c0 PT iv =
     \<lparr>ctx = c0, IV = iv, IV_DEC = iv, CT = replicate (length PT) 0,
      result = replicate (length PT) 0\<rparr>"

definition brief_test ::
  "'c rijn \<Rightarrow> 'c \<Rightarrow> bool \<Rightarrow> bytes \<Rightarrow> bytes \<Rightarrow> bytes \<Rightarrow> test_line list \<times> ending" where
  "brief_test api c0 time_brief PT iv key =
     test_pairs api time_brief PT key size_pairs (initial_state c0 PT iv) [Banner (length PT)]"

text \<open>
  The contents of \<^verbatim>\<open>result\<close> a run reaches after each pair when no pair stops it, for
  stating what the verdict depends on.
\<close>

fun results_after ::
  "'c rijn \<Rightarrow> bytes \<Rightarrow> bytes \<Rightarrow> (nat \<times> nat) list \<Rightarrow> 'c test_state \<Rightarrow> ((nat \<times> nat) \<times> bytes) list" where
  "results_after api PT key [] s = []"
| "results_after api PT key (p # ps) s =
     (p, result (run_pair api PT key p s)) # results_after api PT key ps (run_pair api PT key p s)"

definition first_block_agrees :: "bytes \<Rightarrow> (nat \<times> nat) \<times> bytes \<Rightarrow> bool" where
  "first_block_agrees PT pr = (take (fst (fst pr) div 8) (snd pr) = take (fst (fst pr) div 8) PT)"

text \<open>
  A stand-in for rijndael.c that copies instead of encrypting and whose decryption is
  wrong in the second half of every chunk, and a plaintext of 192 bytes (a multiple
  of the three chunk sizes 32, 48 and 64, as \<^verbatim>\<open>sizeof(PT)\<close> is).
\<close>

definition short_decrypt_rijn :: "unit rijn" where
  "short_decrypt_rijn =
     \<lparr>rijn_set_key = (\<lambda>c key keybits blockbits. c),
      rijn_cbc_encrypt = (\<lambda>c iv src dst n. (c, iv, src)),
      rijn_cbc_decrypt = (\<lambda>c iv src dst n. (c, iv, take (n div 2) src @ replicate (n - n div 2) 0))\<rparr>"

definition sample_PT :: bytes where
  "sample_PT = replicate 192 0xA5"

lemma length_written: "length (written old new) = length old"
  by (simp add: written_def)

lemma length_chunk_at: "length (chunk_at buf i n) = min n (length buf - i)"
  by (simp add: chunk_at_def)

lemma length_store_written:
  "length (store_at buf i (written (chunk_at buf i n) dst)) = length buf"
  by (simp add: store_at_def length_written length_chunk_at)

lemma encrypt_chunk_result: "result (encrypt_chunk api PT n i s) = result s"
  by (simp add: encrypt_chunk_def split: prod.splits)

lemma decrypt_chunk_length: "length (result (decrypt_chunk api n i s)) = length (result s)"
  by (simp add: decrypt_chunk_def length_store_written split: prod.splits)

lemma cbc_encrypt_loop_result:
  "result (cbc_encrypt_loop api PT n i s) = result s"
  by (induction api PT n i s rule: cbc_encrypt_loop.induct)
    (simp add: cbc_encrypt_loop.simps encrypt_chunk_result)

lemma cbc_decrypt_loop_length:
  "length (result (cbc_decrypt_loop api n i s)) = length (result s)"
  by (induction api n i s rule: cbc_decrypt_loop.induct)
    (simp add: cbc_decrypt_loop.simps decrypt_chunk_length)

lemma run_pair_length: "length (result (run_pair api PT key p s)) = length PT"
  by (cases p) (simp add: run_pair_def cbc_decrypt_loop_length cbc_encrypt_loop_result)

lemma memcmp_zero_iff:
  "length a = length b \<Longrightarrow> (memcmp a b n = 0) = (take n a = take n b)"
  by (induction a b n rule: memcmp.induct) (auto simp: word_uint_eq_iff)

lemma memcmp_run_pair:
  "(memcmp PT (result (run_pair api PT key p s)) (fst p div 8) = 0) =
     first_block_agrees PT (p, result (run_pair api PT key p s))"
  by (auto simp add: memcmp_zero_iff run_pair_length first_block_agrees_def)

lemma test_pairs_ending:
  "(snd (test_pairs api tb PT key ps s out) = Returned) =
     list_all (first_block_agrees PT) (results_after api PT key ps s)"
  by (induction ps arbitrary: s out) (simp_all add: Let_def memcmp_run_pair)

lemma test_pairs_passed:
  "(last (fst (test_pairs api tb PT key ps s out)) = PassedLine) =
     (snd (test_pairs api tb PT key ps s out) = Returned)"
  by (induction ps arbitrary: s out) (simp_all add: Let_def)

lemma ending_cases: "(e = Exit_Failure) = (e \<noteq> Returned)"
  by (cases e) simp_all

text \<open>
  C10. \<^verbatim>\<open>brief_test\<close> exits with failure exactly when, for some pair, the first
  \<^verbatim>\<open>blockbytes\<close> bytes of \<^verbatim>\<open>result\<close> differ from the first \<^verbatim>\<open>blockbytes\<close> bytes of \<^verbatim>\<open>PT\<close>, and
  its last line is "passed." exactly when they agree for every pair: nothing in \<^verbatim>\<open>result\<close>
  beyond the first block reaches the verdict.
\<close>

theorem brief_test_first_block_only:
  "(snd (brief_test api c0 tb PT iv key) = Exit_Failure) =
     (\<not> list_all (first_block_agrees PT)
          (results_after api PT key size_pairs (initial_state c0 PT iv)))
   \<and> (last (fst (brief_test api c0 tb PT iv key)) = PassedLine) =
       list_all (first_block_agrees PT)
          (results_after api PT key size_pairs (initial_state c0 PT iv))"
  by (simp add: brief_test_def test_pairs_ending test_pairs_passed ending_cases)

lemma sample_results:
  "results_after short_decrypt_rijn sample_PT (replicate 32 0) size_pairs
     (initial_state () sample_PT (replicate 32 0)) =
     [((128, 128),
       replicate 16 0xA5 @ replicate 16 0 @ replicate 16 0xA5 @ replicate 16 0 @
         replicate 16 0xA5 @ replicate 16 0 @ replicate 16 0xA5 @ replicate 16 0 @
         replicate 16 0xA5 @ replicate 16 0 @ replicate 16 0xA5 @ replicate 16 0),
      ((128, 192),
       replicate 16 0xA5 @ replicate 16 0 @ replicate 16 0xA5 @ replicate 16 0 @
         replicate 16 0xA5 @ replicate 16 0 @ replicate 16 0xA5 @ replicate 16 0 @
         replicate 16 0xA5 @ replicate 16 0 @ replicate 16 0xA5 @ replicate 16 0),
      ((128, 256),
       replicate 16 0xA5 @ replicate 16 0 @ replicate 16 0xA5 @ replicate 16 0 @
         replicate 16 0xA5 @ replicate 16 0 @ replicate 16 0xA5 @ replicate 16 0 @
         replicate 16 0xA5 @ replicate 16 0 @ replicate 16 0xA5 @ replicate 16 0),
      ((192, 128),
       replicate 24 0xA5 @ replicate 24 0 @ replicate 24 0xA5 @ replicate 24 0 @
         replicate 24 0xA5 @ replicate 24 0 @ replicate 24 0xA5 @ replicate 24 0),
      ((192, 192),
       replicate 24 0xA5 @ replicate 24 0 @ replicate 24 0xA5 @ replicate 24 0 @
         replicate 24 0xA5 @ replicate 24 0 @ replicate 24 0xA5 @ replicate 24 0),
      ((192, 256),
       replicate 24 0xA5 @ replicate 24 0 @ replicate 24 0xA5 @ replicate 24 0 @
         replicate 24 0xA5 @ replicate 24 0 @ replicate 24 0xA5 @ replicate 24 0),
      ((256, 128),
       replicate 32 0xA5 @ replicate 32 0 @ replicate 32 0xA5 @ replicate 32 0 @
         replicate 32 0xA5 @ replicate 32 0),
      ((256, 192),
       replicate 32 0xA5 @ replicate 32 0 @ replicate 32 0xA5 @ replicate 32 0 @
         replicate 32 0xA5 @ replicate 32 0),
      ((256, 256),
       replicate 32 0xA5 @ replicate 32 0 @ replicate 32 0xA5 @ replicate 32 0 @
         replicate 32 0xA5 @ replicate 32 0)]"
  by (simp add: size_pairs_def bit_sizes_def run_pair_def chunkcount_def
      cbc_encrypt_loop.simps cbc_decrypt_loop.simps short_decrypt_rijn_def sample_PT_def
      initial_state_def chunk_at_def store_at_def written_def encrypt_chunk_def
      decrypt_chunk_def)

text \<open>
  With the stand-in, the byte after the first block of \<^verbatim>\<open>result\<close> differs from that of
  \<^verbatim>\<open>PT\<close> for every pair, and \<^verbatim>\<open>brief_test\<close> ends with "passed.".
\<close>

theorem brief_test_first_block_only_witness:
  "last (fst (brief_test short_decrypt_rijn () False sample_PT (replicate 32 0) (replicate 32 0)))
     = PassedLine
   \<and> list_all (\<lambda>pr. snd pr ! (fst (fst pr) div 8) \<noteq> sample_PT ! (fst (fst pr) div 8))
       (results_after short_decrypt_rijn sample_PT (replicate 32 0) size_pairs
          (initial_state () sample_PT (replicate 32 0)))"
proof -
  have agrees: "list_all (first_block_agrees sample_PT)
       (results_after short_decrypt_rijn sample_PT (replicate 32 0) size_pairs
          (initial_state () sample_PT (replicate 32 0)))"
    unfolding sample_results by (simp add: first_block_agrees_def sample_PT_def)
  have differs: "list_all (\<lambda>pr. snd pr ! (fst (fst pr) div 8) \<noteq> sample_PT ! (fst (fst pr) div 8))
       (results_after short_decrypt_rijn sample_PT (replicate 32 0) size_pairs
          (initial_state () sample_PT (replicate 32 0)))"
    unfolding sample_results by (simp add: sample_PT_def nth_append)
  from agrees differs
    brief_test_first_block_only [of short_decrypt_rijn "()" False sample_PT
      "replicate 32 0" "replicate 32 0"]
  show ?thesis by blast
qed

end
